theory Spec2Isabelle
  imports Main
begin

section \<open>Python values shared by the three modules\<close>

text \<open>
  Strings are \<open>string\<close>; one \<open>char\<close> stands for one character of a Python
  \<open>str\<close>, a code point below 256.  Every \<open>raise\<close> of the source and of the
  libraries it calls is a value \<open>Inl e\<close> of a result type; the libraries themselves
  (feedparser, requests, BeautifulSoup's parser, transformers, TTS, pydub) are parameters
  of the model, collected in environment records.
\<close>

datatype error = Error string

type_synonym 'a result = "error + 'a"

text \<open>Python's truth value of an optional string: \<open>None\<close> and \<open>''\<close> are false.\<close>

definition truthy :: "string option \<Rightarrow> bool" where
  "truthy v = (case v of None \<Rightarrow> False | Some s \<Rightarrow> s \<noteq> [])"

text \<open>A \<open>char\<close> is a code point below 256.  On that range the whitespace characters of
  \<open>str.split()\<close> and \<open>str.strip()\<close> are: tab, line feed, vertical tab, form feed,
  carriage return, the four separators \<open>0x1c\<close> to \<open>0x1f\<close>, the space, the next-line
  control \<open>0x85\<close> and the no-break space \<open>0xa0\<close>.\<close>

definition is_space :: "char \<Rightarrow> bool" where
  "is_space c = (of_char c \<in> {9::nat, 10, 11, 12, 13, 28, 29, 30, 31, 32, 133, 160})"

text \<open>\<open>text.split()\<close>: the maximal runs of non-whitespace characters, in order.\<close>

fun split_aux :: "string \<Rightarrow> string \<Rightarrow> string list" where
  "split_aux w [] = (if w = [] then [] else [w])"
| "split_aux w (c # cs) =
     (if is_space c then (if w = [] then split_aux [] cs else w # split_aux [] cs)
      else split_aux (w @ [c]) cs)"

definition str_split :: "string \<Rightarrow> string list" where
  "str_split s = split_aux [] s"

text \<open>\<open>s.strip()\<close>: leading and trailing whitespace removed.\<close>

definition str_strip :: "string \<Rightarrow> string" where
  "str_strip s = rev (dropWhile is_space (rev (dropWhile is_space s)))"

text \<open>\<open>' '.join(parts)\<close>.\<close>

fun join_space :: "string list \<Rightarrow> string" where
  "join_space [] = []"
| "join_space [x] = x"
| "join_space (x # y # ys) = x @ '' '' @ join_space (y # ys)"

text \<open>\<open>xs[:n]\<close> for an integer \<open>n\<close>: a negative \<open>n\<close> counts from the end, and an
  index before the start gives the empty list.\<close>

definition slice_to :: "'a list \<Rightarrow> int \<Rightarrow> 'a list" where
  "slice_to xs n = (if 0 \<le> n then take (nat n) xs else take (nat (int (length xs) + n)) xs)"

section \<open>utils/summarizer.py\<close>

text \<open>
  The tokenizer and the sequence model are the \<open>transformers\<close> objects the source
  receives from \<open>from_pretrained\<close> and \<open>pipeline\<close>.  A pipeline call returns a list of
  dictionaries.  \<open>calls\<close> records every call into the library, in order.
\<close>

record tokenizer =
  encode :: "string \<Rightarrow> nat \<Rightarrow> nat list result"
  decode :: "nat list \<Rightarrow> string result"

type_synonym seq_model = "string \<Rightarrow> int \<Rightarrow> int \<Rightarrow> (string \<rightharpoonup> string) list result"

record pipeline =
  pipe_tokenizer :: tokenizer
  pipe_call :: seq_model

datatype lib_call = TokenizerFromPretrained | ModelFromPretrained | MakePipeline
  | Encode | Decode | Inference

record sum_env =
  huggingface_api_key :: "string option"
  tokenizer_from_pretrained :: "string \<Rightarrow> string option \<Rightarrow> tokenizer result"
  model_from_pretrained :: "string \<Rightarrow> string option \<Rightarrow> seq_model result"
  make_pipeline :: "seq_model \<Rightarrow> tokenizer \<Rightarrow> pipeline result"

record sum_state =
  summarizer :: "pipeline option"
  calls :: "lib_call list"

definition model_name :: string where
  "model_name = ''Falconsai/text_summarization''"

definition called :: "lib_call \<Rightarrow> sum_state \<Rightarrow> sum_state" where
  "called c st = st\<lparr>calls := calls st @ [c]\<rparr>"

text \<open>\<open>load_summarizer\<close>: the global is loaded on first use; any exception while loading
  is caught and \<open>None\<close> is returned, the global staying \<open>None\<close>.\<close>

definition load_summarizer :: "sum_env \<Rightarrow> sum_state \<Rightarrow> pipeline option \<times> sum_state" where
  "load_summarizer env st =
     (case summarizer st of
        Some p \<Rightarrow> (Some p, st)
      | None \<Rightarrow>
          (let api_key = huggingface_api_key env;
               auth = (if truthy api_key then api_key else None);
               st1 = called TokenizerFromPretrained st
           in case tokenizer_from_pretrained env model_name auth of
                Inl e \<Rightarrow> (None, st1)
              | Inr tok \<Rightarrow>
                  (let st2 = called ModelFromPretrained st1
                   in case model_from_pretrained env model_name auth of
                        Inl e \<Rightarrow> (None, st2)
                      | Inr model \<Rightarrow>
                          (let st3 = called MakePipeline st2
                           in case make_pipeline env model tok of
                                Inl e \<Rightarrow> (None, st3)
                              | Inr p \<Rightarrow> (Some p, st3\<lparr>summarizer := Some p\<rparr>)))))"

text \<open>The body of the \<open>try\<close> block of \<open>summarize_text\<close>: \<open>Inl\<close> is an exception that
  reaches the \<open>except\<close> clause.\<close>

definition summarize_body ::
  "sum_env \<Rightarrow> sum_state \<Rightarrow> string \<Rightarrow> int \<Rightarrow> int \<Rightarrow> string result \<times> sum_state" where
  "summarize_body env st text max_length min_length =
     (if int (length (str_split text)) < min_length then (Inr text, st)
      else
        case load_summarizer env st of
          (None, st1) \<Rightarrow> (Inr text, st1)
        | (Some sum_pipeline, st1) \<Rightarrow>
            (let max_input_length = 1024;
                 tok = pipe_tokenizer sum_pipeline;
                 st2 = called Encode st1
             in case encode tok text max_input_length of
                  Inl e \<Rightarrow> (Inl e, st2)
                | Inr tokens \<Rightarrow>
                    (let st3 = called Decode st2
                     in case decode tok tokens of
                          Inl e \<Rightarrow> (Inl e, st3)
                        | Inr truncated_text \<Rightarrow>
                            (let st4 = called Inference st3
                             in case pipe_call sum_pipeline truncated_text max_length min_length of
                                  Inl e \<Rightarrow> (Inl e, st4)
                                | Inr summary \<Rightarrow>
                                    (case summary of
                                       [] \<Rightarrow> (Inr text, st4)
                                     | d # _ \<Rightarrow>
                                         (case d ''summary_text'' of
                                            None \<Rightarrow> (Inl (Error ''KeyError''), st4)
                                          | Some s \<Rightarrow> (Inr s, st4)))))))"

definition summarize_text ::
  "sum_env \<Rightarrow> sum_state \<Rightarrow> string \<Rightarrow> int \<Rightarrow> int \<Rightarrow> string \<times> sum_state" where
  "summarize_text env st text max_length min_length =
     (case summarize_body env st text max_length min_length of
        (Inr r, st') \<Rightarrow> (r, st')
      | (Inl e, st') \<Rightarrow> (text, st'))"

section \<open>utils/news_fetcher.py\<close>

subsection \<open>The parsed document\<close>

text \<open>
  What \<open>BeautifulSoup(markup, 'html.parser')\<close> returns: a tree of text strings, comments
  and elements (tag name, the values of the \<open>class\<close> attribute, children).  The soup
  itself is the root element, named \<open>[document]\<close>.
\<close>

datatype node = Text string | Comment string | Elem string "string list" "node list"

text \<open>The strings \<open>get_text\<close> visits: the text strings below a node in document order;
  comments are skipped.\<close>

fun all_strings :: "node \<Rightarrow> string list" where
  "all_strings (Text s) = [s]"
| "all_strings (Comment s) = []"
| "all_strings (Elem name classes children) = concat (map all_strings children)"

text \<open>\<open>get_text(separator=' ', strip=True)\<close>: every string stripped, the empty ones
  dropped, the rest joined by one space.\<close>

definition get_text :: "node \<Rightarrow> string" where
  "get_text n = join_space (filter (\<lambda>s. s \<noteq> []) (map str_strip (all_strings n)))"

text \<open>The nodes below a node, in document order (the node itself excluded).\<close>

fun descendants :: "node \<Rightarrow> node list" where
  "descendants (Text s) = []"
| "descendants (Comment s) = []"
| "descendants (Elem name classes children) = concat (map (\<lambda>c. c # descendants c) children)"

fun is_tag :: "string \<Rightarrow> node \<Rightarrow> bool" where
  "is_tag name (Elem name' classes children) = (name' = name)"
| "is_tag name _ = False"

text \<open>\<open>class_=[...]\<close> matches an element one of whose classes is in the list.\<close>

fun has_class :: "string list \<Rightarrow> node \<Rightarrow> bool" where
  "has_class wanted (Elem name classes children) = (\<exists>c \<in> set classes. c \<in> set wanted)"
| "has_class wanted _ = False"

text \<open>\<open>soup.find(name)\<close> (and \<open>soup.body\<close>, which is \<open>soup.find('body')\<close>): the first
  element of that name, or \<open>None\<close>.\<close>

definition soup_find :: "string \<Rightarrow> node \<Rightarrow> node option" where
  "soup_find name soup =
     (case filter (is_tag name) (descendants soup) of [] \<Rightarrow> None | n # _ \<Rightarrow> Some n)"

text \<open>\<open>soup.find_all(name, class_=wanted)\<close>.\<close>

definition soup_find_all :: "string \<Rightarrow> string list \<Rightarrow> node \<Rightarrow> node list" where
  "soup_find_all name wanted soup =
     filter (\<lambda>n. is_tag name n \<and> has_class wanted n) (descendants soup)"

subsection \<open>The network and the feed\<close>

text \<open>
  \<open>feed_parse\<close> is \<open>feedparser.parse\<close>; an entry is a dictionary of strings.
  \<open>http_get\<close> is \<open>requests.get\<close> followed by \<open>raise_for_status\<close>, returning
  \<open>response.text\<close>.  \<open>parse_html\<close> is the BeautifulSoup constructor.
\<close>

type_synonym entry = "string \<rightharpoonup> string"

record feed =
  bozo_exception :: "error option"
  entries :: "entry list"

record net_env =
  feed_parse :: "string \<Rightarrow> feed result"
  http_get :: "string \<Rightarrow> string result"
  parse_html :: "string \<Rightarrow> node result"

record news_item =
  title :: string
  link :: string
  description :: string
  published :: string

subsection \<open>clean_html\<close>

definition clean_html :: "net_env \<Rightarrow> string \<Rightarrow> string" where
  "clean_html env html_text =
     (case parse_html env html_text of
        Inr soup \<Rightarrow> get_text soup
      | Inl e \<Rightarrow> html_text)"

subsection \<open>fetch_article_content\<close>

definition content_classes :: "string list" where
  "content_classes = [''content'', ''article-content'', ''story-content'', ''entry-content'']"

definition not_available :: string where
  "not_available = ''Content not available''"

text \<open>The \<open>for div in ...\<close> loop: \<open>content\<close> is overwritten by each division's text
  and the loop stops at the first non-empty one.\<close>

fun div_loop :: "node list \<Rightarrow> string \<Rightarrow> string" where
  "div_loop [] content = content"
| "div_loop (d # ds) content =
     (let content' = get_text d in if content' \<noteq> [] then content' else div_loop ds content')"

text \<open>The body of the \<open>try\<close> block.  \<open>soup.body\<close> is \<open>None\<close> when the page has no body
  element, and \<open>None.get_text\<close> raises.\<close>

definition article_content_body :: "net_env \<Rightarrow> string \<Rightarrow> int \<Rightarrow> string result" where
  "article_content_body env url max_length =
     (case http_get env url of
        Inl e \<Rightarrow> Inl e
      | Inr response_text \<Rightarrow>
          (case parse_html env response_text of
             Inl e \<Rightarrow> Inl e
           | Inr soup \<Rightarrow>
               (let content0 = [];
                    content1 = (case soup_find ''article'' soup of
                                  Some article \<Rightarrow> get_text article
                                | None \<Rightarrow> content0);
                    content2 = (if content1 = []
                                then (case soup_find ''main'' soup of
                                        Some main \<Rightarrow> get_text main
                                      | None \<Rightarrow> content1)
                                else content1);
                    content3 = (if content2 = []
                                then div_loop (soup_find_all ''div'' content_classes soup) content2
                                else content2)
                in if content3 = []
                   then (case soup_find ''body'' soup of
                           None \<Rightarrow> Inl (Error ''AttributeError'')
                         | Some body \<Rightarrow> Inr (slice_to (get_text body) max_length))
                   else Inr (slice_to content3 max_length))))"

definition fetch_article_content :: "net_env \<Rightarrow> string \<Rightarrow> int \<Rightarrow> string" where
  "fetch_article_content env url max_length =
     (case article_content_body env url max_length of
        Inr content \<Rightarrow> content
      | Inl e \<Rightarrow> not_available)"

subsection \<open>fetch_news\<close>

text \<open>\<open>entry.get(key, default)\<close>.\<close>

definition entry_get :: "entry \<Rightarrow> string \<Rightarrow> string \<Rightarrow> string" where
  "entry_get e key dflt = (case e key of Some v \<Rightarrow> v | None \<Rightarrow> dflt)"

text \<open>One round of the loop over \<open>feed.entries\<close>.  The item always has the key
  \<open>link\<close>, so the test is on the length alone; \<open>fetch_article_content\<close> catches every
  exception itself, so the \<open>except\<close> clause around the call is never entered.\<close>

definition make_item :: "net_env \<Rightarrow> entry \<Rightarrow> news_item" where
  "make_item env e =
     (let item = \<lparr>title = entry_get e ''title'' ''No title'',
                  link = entry_get e ''link'' ''#'',
                  description = clean_html env
                    (entry_get e ''description'' (entry_get e ''summary'' ''No description'')),
                  published = entry_get e ''published'' ''No date''\<rparr>
      in if length (description item) < 100
         then item\<lparr>description := fetch_article_content env (link item) 1000\<rparr>
         else item)"

definition fetch_news :: "net_env \<Rightarrow> string \<Rightarrow> news_item list" where
  "fetch_news env rss_url =
     (case feed_parse env rss_url of
        Inl e \<Rightarrow> []
      | Inr fd \<Rightarrow>
          (case bozo_exception fd of
             Some e \<Rightarrow> []
           | None \<Rightarrow> map (make_item env) (entries fd)))"

section \<open>utils/voice_generator.py\<close>

subsection \<open>The file system\<close>

text \<open>
  Regular files with their contents, directories, and the candidate names
  \<open>tempfile.mkstemp\<close> will try, in the order it draws them.  The operating system may
  refuse an operation for reasons the program does not see (permissions, a read-only file
  system, a full disk): \<open>write_fault st p content\<close> is the fault, if any, that writing
  \<open>content\<close> to \<open>p\<close> runs into, at \<open>open\<close> or after the file has been truncated, and
  \<open>mkdir_error st p\<close> the error, if any, that creating the directory \<open>p\<close> raises.
\<close>

datatype fault = OpenFault error | WriteFault error

record os_state =
  files :: "string \<rightharpoonup> string"
  dirs :: "string set"
  temp_names :: "string list"
  write_fault :: "string \<Rightarrow> string \<Rightarrow> fault option"
  mkdir_error :: "string \<Rightarrow> error option"

text \<open>\<open>os.path.exists\<close>.\<close>

definition path_exists :: "os_state \<Rightarrow> string \<Rightarrow> bool" where
  "path_exists st p = (p \<in> dom (files st) \<or> p \<in> dirs st)"


text \<open>\<open>os.makedirs(p, exist_ok=True)\<close> for a single path component: nothing to do when the
  directory exists; \<open>FileExistsError\<close> when a regular file has that name; otherwise the
  directory is created unless the operating system refuses.\<close>

definition makedirs :: "os_state \<Rightarrow> string \<Rightarrow> os_state result" where
  "makedirs st p =
     (if p \<in> dirs st then Inr st
      else if p \<in> dom (files st) then Inl (Error ''FileExistsError'')
      else case mkdir_error st p of
             Some e \<Rightarrow> Inl e
           | None \<Rightarrow> Inr (st\<lparr>dirs := insert p (dirs st)\<rparr>))"




subsection \<open>The speech library\<close>




subsection \<open>get_reference_audio_path\<close>

definition reference_files :: "string \<rightharpoonup> string" where
  "reference_files =
     [''Morgan Freeman'' \<mapsto> ''reference_audio/morgan_freeman.wav'',
      ''Oprah Winfrey'' \<mapsto> ''reference_audio/oprah_winfrey.wav'',
      ''Barack Obama'' \<mapsto> ''reference_audio/barack_obama.wav'',
      ''Emma Watson'' \<mapsto> ''reference_audio/emma_watson.wav'',
      ''David Attenborough'' \<mapsto> ''reference_audio/david_attenborough.wav'']"

text \<open>The \<open>else\<close> branch: the directory is created if need be; an exception of
  \<open>os.makedirs\<close> is caught, and \<open>None\<close> is returned either way.\<close>

definition no_reference :: "os_state \<Rightarrow> string option \<times> os_state" where
  "no_reference st =
     (case makedirs st ''reference_audio'' of
        Inr st' \<Rightarrow> (None, st')
      | Inl e \<Rightarrow> (None, st))"

definition get_reference_audio_path :: "string \<Rightarrow> os_state \<Rightarrow> string option \<times> os_state" where
  "get_reference_audio_path celebrity st =
     (case reference_files celebrity of
        Some path \<Rightarrow> if path_exists st path then (Some path, st) else no_reference st
      | None \<Rightarrow> no_reference st)"

subsection \<open>process_audio\<close>


subsection \<open>generate_voice_clone\<close>





section \<open>Notions of the specification\<close>

text \<open>The texts \<open>fetch_article_content\<close> tries before the body, in priority order: the
  first \<open>article\<close> element, the first \<open>main\<close> element, then every \<open>div\<close> carrying
  one of the content classes, in document order.\<close>

definition priority_texts :: "node \<Rightarrow> string list" where
  "priority_texts soup =
     (case soup_find ''article'' soup of None \<Rightarrow> [] | Some article \<Rightarrow> [get_text article]) @
     (case soup_find ''main'' soup of None \<Rightarrow> [] | Some main \<Rightarrow> [get_text main]) @
     map get_text (soup_find_all ''div'' content_classes soup)"

text \<open>The first element of any name that carries one of the classes, as the specification
  words its third step.\<close>

definition first_with_class :: "string list \<Rightarrow> node \<Rightarrow> node option" where
  "first_with_class wanted soup =
     (case filter (has_class wanted) (descendants soup) of [] \<Rightarrow> None | n # _ \<Rightarrow> Some n)"

text \<open>The selection as the specification words it: the first \<open>article\<close> if present and
  non-empty, else the first \<open>main\<close>, else the first element with a content class, else
  the body.\<close>

definition spec_extract :: "node \<Rightarrow> string option" where
  "spec_extract soup =
     (case (case soup_find ''article'' soup of None \<Rightarrow> None
            | Some article \<Rightarrow> if get_text article \<noteq> [] then Some (get_text article) else None) of
        Some t \<Rightarrow> Some t
      | None \<Rightarrow>
          (case soup_find ''main'' soup of
             Some main \<Rightarrow> Some (get_text main)
           | None \<Rightarrow>
               (case first_with_class content_classes soup of
                  Some el \<Rightarrow> Some (get_text el)
                | None \<Rightarrow> map_option get_text (soup_find ''body'' soup))))"



section \<open>Concrete environments used in the examples\<close>

definition fresh_state :: sum_state where
  "fresh_state = \<lparr>summarizer = None, calls = []\<rparr>"

text \<open>A tokenizer that maps characters to their codes, and an environment whose downloads
  succeed and whose pipeline calls the given model.\<close>

definition stub_tokenizer :: tokenizer where
  "stub_tokenizer =
     \<lparr>encode = (\<lambda>s n. Inr (take n (map of_char s))), decode = (\<lambda>ts. Inr (map char_of ts))\<rparr>"

definition stub_env :: "seq_model \<Rightarrow> sum_env" where
  "stub_env m =
     \<lparr>huggingface_api_key = None,
      tokenizer_from_pretrained = (\<lambda>name auth. Inr stub_tokenizer),
      model_from_pretrained = (\<lambda>name auth. Inr m),
      make_pipeline = (\<lambda>model tok. Inr \<lparr>pipe_tokenizer = tok, pipe_call = model\<rparr>)\<rparr>"

text \<open>An environment with no network: every download raises.\<close>

definition offline_env :: sum_env where
  "offline_env =
     \<lparr>huggingface_api_key = None,
      tokenizer_from_pretrained = (\<lambda>name auth. Inl (Error ''OSError'')),
      model_from_pretrained = (\<lambda>name auth. Inl (Error ''OSError'')),
      make_pipeline = (\<lambda>model tok. Inl (Error ''OSError''))\<rparr>"

text \<open>Documents, parsers and sites.\<close>

definition document :: "node list \<Rightarrow> node" where
  "document children = Elem ''[document]'' [] children"

definition plain_parser :: "string \<Rightarrow> node result" where
  "plain_parser s = Inr (document [Text s])"

definition unreachable_env :: net_env where
  "unreachable_env =
     \<lparr>feed_parse = (\<lambda>u. Inl (Error ''URLError'')),
      http_get = (\<lambda>u. Inl (Error ''ConnectionError'')),
      parse_html = plain_parser\<rparr>"

definition page_env :: "string \<Rightarrow> node \<Rightarrow> net_env" where
  "page_env html soup =
     \<lparr>feed_parse = (\<lambda>u. Inl (Error ''URLError'')),
      http_get = (\<lambda>u. Inr html),
      parse_html = (\<lambda>s. if s = html then Inr soup else plain_parser s)\<rparr>"

definition empty_body_page :: node where
  "empty_body_page = document [Elem ''html'' [] [Elem ''head'' [] [], Elem ''body'' [] []]]"

definition section_page :: node where
  "section_page =
     document [Elem ''html'' [] [Elem ''body'' []
       [Elem ''p'' [] [Text ''Menu''],
        Elem ''section'' [''content''] [Text ''Story'']]]]"

definition body_only_page :: node where
  "body_only_page =
     document [Elem ''html'' [] [Elem ''body'' []
       [Elem ''p'' [] [Text ''Hello''], Comment ''ad slot'', Text '' world '']]]"

definition div_page :: node where
  "div_page =
     document [Elem ''html'' [] [Elem ''body'' []
       [Elem ''article'' [] [],
        Elem ''div'' [''content''] [Text '' ''],
        Elem ''div'' [''wide'', ''story-content''] [Text ''Story''],
        Elem ''p'' [] [Text ''Footer'']]]]"

definition site_env :: "entry list \<Rightarrow> string result \<Rightarrow> (string \<Rightarrow> node result) \<Rightarrow> net_env" where
  "site_env es page parser =
     \<lparr>feed_parse = (\<lambda>u. Inr \<lparr>bozo_exception = None, entries = es\<rparr>),
      http_get = (\<lambda>u. page),
      parse_html = parser\<rparr>"

definition short_entry :: entry where
  "short_entry = [''title'' \<mapsto> ''Test'', ''link'' \<mapsto> ''http://example.org/a'',
                  ''description'' \<mapsto> ''<p>Short</p>'']"

definition short_parser :: "string \<Rightarrow> node result" where
  "short_parser s =
     (if s = ''<p>Short</p>'' then Inr (document [Elem ''p'' [] [Text ''Short'']])
      else plain_parser s)"

definition bare_entry :: entry where
  "bare_entry = [''title'' \<mapsto> ''Test'', ''link'' \<mapsto> ''http://example.org/a'']"

definition empty_body_parser :: "string \<Rightarrow> node result" where
  "empty_body_parser s =
     (if s = ''<html><head></head><body></body></html>'' then Inr empty_body_page
      else plain_parser s)"





definition article_parser :: "string \<Rightarrow> node result" where
  "article_parser s =
     (if s = ''<article>Full article body text</article>''
      then Inr (document [Elem ''article'' [] [Text ''Full article body text'']])
      else plain_parser s)"

text \<open>Disks and speech environments.\<close>

definition blocked_state :: os_state where
  "blocked_state = \<lparr>files = [''reference_audio'' \<mapsto> ''not a directory''], dirs = {},
                     temp_names = [''/tmp/tmpk3x9''],
                     write_fault = (\<lambda>p content. None), mkdir_error = (\<lambda>p. None)\<rparr>"

definition empty_disk :: os_state where
  "empty_disk = \<lparr>files = Map.empty, dirs = {},
                  temp_names = [''/tmp/tmpk3x9'', ''/tmp/tmpq7ab''],
                  write_fault = (\<lambda>p content. None), mkdir_error = (\<lambda>p. None)\<rparr>"

definition sample_disk :: os_state where
  "sample_disk = \<lparr>files = [''reference_audio/morgan_freeman.wav'' \<mapsto> ''RIFF''],
                   dirs = {''reference_audio''}, temp_names = [''/tmp/tmpk3x9''],
                   write_fault = (\<lambda>p content. None), mkdir_error = (\<lambda>p. None)\<rparr>"

text \<open>A disk on which no file can be opened for writing and no directory made.\<close>

definition readonly_disk :: os_state where
  "readonly_disk = \<lparr>files = Map.empty, dirs = {}, temp_names = [''/tmp/tmpk3x9''],
                     write_fault = (\<lambda>p content. Some (OpenFault (Error ''PermissionError''))),
                     mkdir_error = (\<lambda>p. Some (Error ''PermissionError''))\<rparr>"






section \<open>Summarizer: the short-text identity and the failure fallback\<close>

text \<open>
  C5. When the word count of the text is strictly below \<open>min_length\<close>,
  \<open>summarize_text\<close> returns the text unchanged, whatever the environment is, and the
  state is unchanged: the global model stays as it was and no library call is recorded.
\<close>

theorem summarize_text_short_identity:
  "int (length (str_split text)) < min_length \<Longrightarrow>
   summarize_text env st text max_length min_length = (text, st)"
  by (simp add: summarize_text_def summarize_body_def)

theorem summarize_text_short_identity_witness:
  "int (length (str_split ''word word word word word word word word word word '')) < 30 \<and>
   summarize_text offline_env fresh_state
       ''word word word word word word word word word word '' 150 30
     = (''word word word word word word word word word word '', fresh_state)"
  using summarize_text_short_identity
    [of "''word word word word word word word word word word ''" 30 offline_env fresh_state 150]
  by (simp add: str_split_def is_space_def)

text \<open>
  C6. \<open>summarize_text\<close> always returns a string, and it returns the input text itself
  whenever a stage fails: the model cannot be loaded, the tokenizer raises while encoding
  or decoding, the inference raises, the model returns an empty list, or the first result
  has no \<open>summary_text\<close>.
\<close>

theorem summarize_text_failure_returns_input:
  "(fst (load_summarizer env st) = None \<longrightarrow> fst (summarize_text env st text mx mn) = text) \<and>
   (\<forall>p. fst (load_summarizer env st) = Some p \<longrightarrow>
      (\<forall>e. encode (pipe_tokenizer p) text 1024 = Inl e \<longrightarrow>
           fst (summarize_text env st text mx mn) = text) \<and>
      (\<forall>toks. encode (pipe_tokenizer p) text 1024 = Inr toks \<longrightarrow>
         (\<forall>e. decode (pipe_tokenizer p) toks = Inl e \<longrightarrow>
              fst (summarize_text env st text mx mn) = text) \<and>
         (\<forall>t. decode (pipe_tokenizer p) toks = Inr t \<longrightarrow>
            (\<forall>e. pipe_call p t mx mn = Inl e \<longrightarrow>
                 fst (summarize_text env st text mx mn) = text) \<and>
            (pipe_call p t mx mn = Inr [] \<longrightarrow>
                 fst (summarize_text env st text mx mn) = text) \<and>
            (\<forall>d ds. pipe_call p t mx mn = Inr (d # ds) \<and> d ''summary_text'' = None \<longrightarrow>
                 fst (summarize_text env st text mx mn) = text))))"
  by (auto simp: summarize_text_def summarize_body_def Let_def
           split: prod.splits option.splits sum.splits list.splits)

theorem summarize_text_failure_returns_input_witness:
  "fst (load_summarizer offline_env fresh_state) = None \<and>
   fst (summarize_text offline_env fresh_state ''a b c'' 150 2) = ''a b c'' \<and>
   fst (summarize_text (stub_env (\<lambda>t mx mn. Inl (Error ''RuntimeError''))) fresh_state
          ''a b c'' 150 2) = ''a b c'' \<and>
   fst (summarize_text (stub_env (\<lambda>t mx mn. Inr [])) fresh_state ''a b c'' 150 2) = ''a b c''"
  using summarize_text_failure_returns_input [of offline_env fresh_state "''a b c''" 150 2]
    summarize_text_failure_returns_input
      [of "stub_env (\<lambda>t mx mn. Inl (Error ''RuntimeError''))" fresh_state "''a b c''" 150 2]
    summarize_text_failure_returns_input
      [of "stub_env (\<lambda>t mx mn. Inr [])" fresh_state "''a b c''" 150 2]
  by (simp add: load_summarizer_def offline_env_def stub_env_def stub_tokenizer_def
        fresh_state_def called_def truthy_def)

section \<open>Content extraction: length, fallback and priority\<close>

lemma length_slice_to: "0 \<le> n \<Longrightarrow> int (length (slice_to xs n)) \<le> n"
  by (simp add: slice_to_def)

lemma article_content_body_slice:
  "article_content_body env url n = Inr c \<Longrightarrow> \<exists>t. c = slice_to t n"
  by (auto simp: article_content_body_def Let_def split: sum.splits option.splits if_splits)

lemma article_content_body_length:
  assumes "article_content_body env url n = Inr c" and "0 \<le> n"
  shows "int (length c) \<le> n"
proof -
  from assms(1) obtain t where "c = slice_to t n"
    using article_content_body_slice by blast
  with assms(2) show ?thesis by (simp add: length_slice_to)
qed

text \<open>
  The sentinel returned on failure has 21 characters whatever \<open>max_length\<close> is: with
  an unreachable site and \<open>max_length = 5\<close> the result is longer than \<open>max_length\<close>.
\<close>

theorem fetch_article_content_length_counterexample:
  "\<not> int (length (fetch_article_content unreachable_env ''http://example.org/a'' 5)) \<le> 5"
  by (simp add: fetch_article_content_def article_content_body_def unreachable_env_def
        not_available_def)

text \<open>
  C3 (amended). For \<open>max_length \<ge> 0\<close>, every result of \<open>fetch_article_content\<close> other
  than the failure sentinel has at most \<open>max_length\<close> characters; the sentinel has 21, so
  every result has at most \<open>max max_length 21\<close> characters.
\<close>

theorem fetch_article_content_length:
  "0 \<le> max_length \<Longrightarrow>
   (fetch_article_content env url max_length \<noteq> not_available \<longrightarrow>
      int (length (fetch_article_content env url max_length)) \<le> max_length) \<and>
   int (length (fetch_article_content env url max_length)) \<le> max max_length 21"
proof (cases "article_content_body env url max_length")
  case (Inl e)
  assume "0 \<le> max_length"
  from Inl show ?thesis
    by (simp add: fetch_article_content_def not_available_def)
next
  case (Inr c)
  assume "0 \<le> max_length"
  with Inr have "int (length c) \<le> max_length"
    by (rule article_content_body_length)
  with Inr show ?thesis
    by (simp add: fetch_article_content_def)
qed

theorem fetch_article_content_length_witness:
  "(0::int) \<le> 3 \<and>
   fetch_article_content
     (page_env ''<article>Full article</article>''
        (document [Elem ''article'' [] [Text ''Full article'']]))
     ''http://example.org/a'' 3 = ''Ful'' \<and>
   int (length (fetch_article_content
     (page_env ''<article>Full article</article>''
        (document [Elem ''article'' [] [Text ''Full article'']]))
     ''http://example.org/a'' 3)) \<le> 3"
  using fetch_article_content_length
    [of 3 "page_env ''<article>Full article</article>''
             (document [Elem ''article'' [] [Text ''Full article'']])"
        "''http://example.org/a''"]
  by (simp add: fetch_article_content_def article_content_body_def page_env_def document_def
        soup_find_def get_text_def str_strip_def is_space_def slice_to_def)

text \<open>
  A page with an empty body and no \<open>article\<close>, \<open>main\<close> or content class: the result is
  the empty string, not the sentinel.
\<close>

theorem empty_body_counterexample:
  "soup_find ''article'' empty_body_page = None \<and>
   soup_find ''main'' empty_body_page = None \<and>
   first_with_class content_classes empty_body_page = None \<and>
   soup_find ''body'' empty_body_page = Some (Elem ''body'' [] []) \<and>
   get_text (Elem ''body'' [] []) = [] \<and>
   fetch_article_content (page_env ''<html><head></head><body></body></html>'' empty_body_page)
     ''http://example.org/a'' 1000 = [] \<and>
   fetch_article_content (page_env ''<html><head></head><body></body></html>'' empty_body_page)
     ''http://example.org/a'' 1000 \<noteq> ''Content not available''"
  by (simp add: fetch_article_content_def article_content_body_def page_env_def document_def
        empty_body_page_def soup_find_def soup_find_all_def first_with_class_def get_text_def
        slice_to_def content_classes_def)

text \<open>
  C4 (amended). For a fetched page with no \<open>article\<close>, no \<open>main\<close> and no \<open>div\<close> with a
  content class, \<open>fetch_article_content\<close> returns the text of the body cut to
  \<open>max_length\<close> characters (the empty string when the body is empty), and the sentinel
  \<open>Content not available\<close> when the page has no body element.
\<close>

theorem body_fallback:
  assumes "http_get env url = Inr response_text"
      and "parse_html env response_text = Inr soup"
      and "soup_find ''article'' soup = None"
      and "soup_find ''main'' soup = None"
      and "soup_find_all ''div'' content_classes soup = []"
  shows "fetch_article_content env url max_length =
     (case soup_find ''body'' soup of
        Some body \<Rightarrow> slice_to (get_text body) max_length
      | None \<Rightarrow> ''Content not available'')"
  using assms
  by (simp add: fetch_article_content_def article_content_body_def not_available_def
        split: option.splits)

theorem body_fallback_witness:
  "http_get (page_env ''<html>...</html>'' body_only_page) ''http://example.org/a'' = Inr ''<html>...</html>'' \<and>
   parse_html (page_env ''<html>...</html>'' body_only_page) ''<html>...</html>'' = Inr body_only_page \<and>
   soup_find ''article'' body_only_page = None \<and>
   soup_find ''main'' body_only_page = None \<and>
   soup_find_all ''div'' content_classes body_only_page = [] \<and>
   fetch_article_content (page_env ''<html>...</html>'' body_only_page) ''http://example.org/a'' 1000
     = ''Hello world''"
proof -
  have h: "http_get (page_env ''<html>...</html>'' body_only_page) ''http://example.org/a'' = Inr ''<html>...</html>''"
    "parse_html (page_env ''<html>...</html>'' body_only_page) ''<html>...</html>'' = Inr body_only_page"
    "soup_find ''article'' body_only_page = None"
    "soup_find ''main'' body_only_page = None"
    "soup_find_all ''div'' content_classes body_only_page = []"
    by (simp_all add: page_env_def body_only_page_def document_def soup_find_def soup_find_all_def)
  have "soup_find ''body'' body_only_page =
      Some (Elem ''body'' [] [Elem ''p'' [] [Text ''Hello''], Comment ''ad slot'', Text '' world ''])"
    by (simp add: body_only_page_def document_def soup_find_def)
  moreover have "get_text (Elem ''body'' [] [Elem ''p'' [] [Text ''Hello''], Comment ''ad slot'', Text '' world ''])
      = ''Hello world''"
    by (simp add: get_text_def str_strip_def is_space_def)
  ultimately show ?thesis
    using h body_fallback [OF h, of 1000] by (simp add: slice_to_def)
qed

lemma div_loop_first_nonempty:
  "div_loop ds c0 =
     (case filter (\<lambda>c. c \<noteq> []) (map get_text ds) of
        [] \<Rightarrow> (if ds = [] then c0 else [])
      | c # _ \<Rightarrow> c)"
  by (induction ds arbitrary: c0) (auto simp: Let_def split: list.splits)

lemma filter_nonempty_head: "filter (\<lambda>c. c \<noteq> []) xs = c # cs \<Longrightarrow> c \<noteq> []"
  by (induction xs) (auto split: if_splits)

text \<open>
  A page whose only element with a content class is a \<open>section\<close>: the specification's
  selection is the text of that element, the code returns the text of the whole body.
\<close>

theorem section_page_counterexample:
  "first_with_class content_classes section_page
     = Some (Elem ''section'' [''content''] [Text ''Story'']) \<and>
   spec_extract section_page = Some ''Story'' \<and>
   fetch_article_content (page_env ''<html>...</html>'' section_page)
     ''http://example.org/a'' 1000 = ''Menu Story'' \<and>
   Some (fetch_article_content (page_env ''<html>...</html>'' section_page)
     ''http://example.org/a'' 1000) \<noteq> spec_extract section_page"
  by (simp add: fetch_article_content_def article_content_body_def page_env_def document_def
        section_page_def soup_find_def soup_find_all_def first_with_class_def get_text_def
        slice_to_def content_classes_def spec_extract_def str_strip_def is_space_def)

text \<open>
  C9 (amended). For every fetched and parsed page, \<open>fetch_article_content\<close> returns the
  first non-empty text, cut to \<open>max_length\<close> characters, among the first \<open>article\<close>
  element, the first \<open>main\<close> element and the \<open>div\<close> elements with a content class in
  document order; when none is non-empty it returns the text of the body cut to
  \<open>max_length\<close>, or the sentinel when there is no body element.
\<close>

theorem fetch_article_content_priority:
  assumes "http_get env url = Inr response_text"
      and "parse_html env response_text = Inr soup"
  shows "fetch_article_content env url max_length =
     (case filter (\<lambda>c. c \<noteq> []) (priority_texts soup) of
        c # _ \<Rightarrow> slice_to c max_length
      | [] \<Rightarrow>
          (case soup_find ''body'' soup of
             Some body \<Rightarrow> slice_to (get_text body) max_length
           | None \<Rightarrow> ''Content not available''))"
  using assms
  by (auto simp: fetch_article_content_def article_content_body_def not_available_def
        priority_texts_def div_loop_first_nonempty Let_def
        dest: filter_nonempty_head split: option.splits list.splits)

theorem fetch_article_content_priority_witness:
  "http_get (page_env ''<html>...</html>'' div_page) ''http://example.org/a'' = Inr ''<html>...</html>'' \<and>
   parse_html (page_env ''<html>...</html>'' div_page) ''<html>...</html>'' = Inr div_page \<and>
   priority_texts div_page = ['''', '''', ''Story''] \<and>
   fetch_article_content (page_env ''<html>...</html>'' div_page) ''http://example.org/a'' 3 = ''Sto''"
proof -
  have h: "http_get (page_env ''<html>...</html>'' div_page) ''http://example.org/a'' = Inr ''<html>...</html>''"
    "parse_html (page_env ''<html>...</html>'' div_page) ''<html>...</html>'' = Inr div_page"
    by (simp_all add: page_env_def)
  have p: "priority_texts div_page = ['''', '''', ''Story'']"
    by (simp add: priority_texts_def div_page_def document_def soup_find_def soup_find_all_def
          content_classes_def get_text_def str_strip_def is_space_def)
  show ?thesis
    using h p fetch_article_content_priority [OF h, of 3] by (simp add: slice_to_def)
qed

section \<open>The feed reader\<close>

text \<open>
  C2. The entry's cleaned description is \<open>Short\<close> and the request for the linked page
  raises; \<open>fetch_article_content\<close> turns the exception into the sentinel, which
  \<open>fetch_news\<close> stores as the description.  The short description is lost.
\<close>

theorem enrichment_failure_overwrites_description:
  "clean_html (site_env [short_entry] (Inl (Error ''ConnectionError'')) short_parser) ''<p>Short</p>'' = ''Short'' \<and>
   article_content_body (site_env [short_entry] (Inl (Error ''ConnectionError'')) short_parser)
      ''http://example.org/a'' 1000 = Inl (Error ''ConnectionError'') \<and>
   map description (fetch_news (site_env [short_entry] (Inl (Error ''ConnectionError'')) short_parser)
      ''http://example.org/feed'') = [''Content not available'']"
  by (simp add: fetch_news_def make_item_def site_env_def short_entry_def short_parser_def
        clean_html_def entry_get_def fetch_article_content_def article_content_body_def
        not_available_def get_text_def document_def str_strip_def is_space_def Let_def)

lemma fetch_news_items:
  assumes "item \<in> set (fetch_news env rss_url)"
  shows "\<exists>fd e. feed_parse env rss_url = Inr fd \<and> e \<in> set (entries fd) \<and>
           item = make_item env e"
proof (cases "feed_parse env rss_url")
  case (Inl err)
  with assms show ?thesis by (simp add: fetch_news_def)
next
  case (Inr fd)
  with assms have "bozo_exception fd = None" and "item \<in> make_item env ` set (entries fd)"
    by (auto simp: fetch_news_def split: option.splits)
  with Inr show ?thesis by blast
qed

text \<open>
  An entry with neither description nor summary, linked to a page with an empty body: the
  description of the returned item is empty.
\<close>

theorem missing_description_counterexample:
  "bare_entry ''description'' = None \<and> bare_entry ''summary'' = None \<and>
   map description (fetch_news
      (site_env [bare_entry] (Inr ''<html><head></head><body></body></html>'') empty_body_parser)
      ''http://example.org/feed'') = [[]]"
  by (simp add: fetch_news_def make_item_def site_env_def bare_entry_def empty_body_parser_def
        clean_html_def entry_get_def fetch_article_content_def article_content_body_def
        not_available_def get_text_def document_def str_strip_def is_space_def Let_def
        plain_parser_def empty_body_page_def soup_find_def soup_find_all_def slice_to_def
        content_classes_def)

text \<open>
  C7 (amended). Every item returned by \<open>fetch_news\<close> comes from an entry of the feed.
  Its title and link are the entry's, or \<open>No title\<close> and \<open>#\<close> when the entry has no such
  key, so they are non-empty unless the entry itself carries an empty string.  Its
  description is the cleaned description (of the entry's description, else its summary,
  else \<open>No description\<close>) when that has at least 100 characters; when it is shorter and
  the linked page is fetched, the description is the text extracted from the page, which
  may be empty.
\<close>

theorem fetch_news_item_fields:
  assumes "item \<in> set (fetch_news env rss_url)"
  shows "\<exists>fd e. feed_parse env rss_url = Inr fd \<and> e \<in> set (entries fd) \<and>
      title item = (case e ''title'' of Some t \<Rightarrow> t | None \<Rightarrow> ''No title'') \<and>
      link item = (case e ''link'' of Some l \<Rightarrow> l | None \<Rightarrow> ''#'') \<and>
      (e ''title'' \<noteq> Some [] \<longrightarrow> title item \<noteq> []) \<and>
      (e ''link'' \<noteq> Some [] \<longrightarrow> link item \<noteq> []) \<and>
      (let cleaned = clean_html env
             (entry_get e ''description'' (entry_get e ''summary'' ''No description''))
       in (100 \<le> length cleaned \<longrightarrow> description item = cleaned) \<and>
          (length cleaned < 100 \<longrightarrow>
             (\<forall>content. article_content_body env (link item) 1000 = Inr content \<longrightarrow>
                description item = content)))"
proof -
  from assms obtain fd e where fd: "feed_parse env rss_url = Inr fd"
    and e: "e \<in> set (entries fd)" and item: "item = make_item env e"
    using fetch_news_items by blast
  have t: "title item = (case e ''title'' of Some t \<Rightarrow> t | None \<Rightarrow> ''No title'')"
    and l: "link item = (case e ''link'' of Some l \<Rightarrow> l | None \<Rightarrow> ''#'')"
    by (simp_all add: item make_item_def entry_get_def Let_def)
  from t have t': "e ''title'' \<noteq> Some [] \<longrightarrow> title item \<noteq> []"
    by (simp split: option.splits)
  from l have l': "e ''link'' \<noteq> Some [] \<longrightarrow> link item \<noteq> []"
    by (simp split: option.splits)
  have d: "let cleaned = clean_html env
             (entry_get e ''description'' (entry_get e ''summary'' ''No description''))
       in (100 \<le> length cleaned \<longrightarrow> description item = cleaned) \<and>
          (length cleaned < 100 \<longrightarrow>
             (\<forall>content. article_content_body env (link item) 1000 = Inr content \<longrightarrow>
                description item = content))"
    by (simp add: item make_item_def Let_def fetch_article_content_def)
  from fd e t l t' l' d show ?thesis by blast
qed

theorem fetch_news_item_fields_witness:
  "fetch_news
      (site_env [bare_entry] (Inr ''<article>Full article body text</article>'') article_parser)
      ''http://example.org/feed''
     = [\<lparr>title = ''Test'', link = ''http://example.org/a'',
         description = ''Full article body text'', published = ''No date''\<rparr>]"
  using fetch_news_item_fields
    [of "\<lparr>title = ''Test'', link = ''http://example.org/a'',
          description = ''Full article body text'', published = ''No date''\<rparr>"
        "site_env [bare_entry] (Inr ''<article>Full article body text</article>'') article_parser"
        "''http://example.org/feed''"]
  by (simp add: fetch_news_def make_item_def site_env_def bare_entry_def plain_parser_def
        article_parser_def clean_html_def entry_get_def fetch_article_content_def
        article_content_body_def soup_find_def slice_to_def
        not_available_def get_text_def document_def str_strip_def is_space_def Let_def)
















section \<open>Reference samples and narration\<close>

text \<open>
  A regular file named \<open>reference_audio\<close> is in the way: \<open>os.makedirs\<close> raises, the
  exception is caught, and the directory is not created.
\<close>

theorem makedirs_blocked_counterexample:
  "''reference_audio'' \<notin> dirs blocked_state \<and>
   get_reference_audio_path ''Morgan Freeman'' blocked_state = (None, blocked_state)"
  by (simp add: get_reference_audio_path_def no_reference_def makedirs_def blocked_state_def
        reference_files_def path_exists_def)

lemma no_reference_effect:
  "no_reference st = (r, st') \<Longrightarrow>
     r = None \<and>
     st' = (if ''reference_audio'' \<in> dirs st \<or> ''reference_audio'' \<in> dom (files st) \<or>
               mkdir_error st ''reference_audio'' \<noteq> None
            then st else st\<lparr>dirs := insert ''reference_audio'' (dirs st)\<rparr>)"
  by (auto simp: no_reference_def makedirs_def split: if_splits option.splits)

text \<open>
  C10 (amended). \<open>get_reference_audio_path\<close> returns the mapped path exactly when the
  celebrity is in the fixed mapping and that path exists, and then changes nothing.  In
  every other case it returns \<open>None\<close>, and the only change to the disk is that the
  directory \<open>reference_audio\<close> is created when it does not exist yet, unless
  \<open>os.makedirs\<close> raises (a regular file of that name is in the way, or the operating
  system refuses for any other reason), in which case the exception is caught and the disk
  is unchanged.
\<close>

theorem get_reference_audio_path_effect:
  assumes "get_reference_audio_path celebrity st = (r, st')"
  shows "(\<forall>p. r = Some p \<longleftrightarrow> (reference_files celebrity = Some p \<and> path_exists st p)) \<and>
         (r \<noteq> None \<longrightarrow> st' = st) \<and>
         (r = None \<longrightarrow>
            st' = (if ''reference_audio'' \<in> dirs st \<or> ''reference_audio'' \<in> dom (files st) \<or>
                      mkdir_error st ''reference_audio'' \<noteq> None
                   then st else st\<lparr>dirs := insert ''reference_audio'' (dirs st)\<rparr>))"
proof (cases "reference_files celebrity")
  case None
  with assms have "no_reference st = (r, st')"
    by (simp add: get_reference_audio_path_def)
  from no_reference_effect [OF this] None show ?thesis by simp
next
  case (Some path)
  show ?thesis
  proof (cases "path_exists st path")
    case True
    with assms Some show ?thesis
      by (auto simp: get_reference_audio_path_def)
  next
    case False
    with assms Some have "no_reference st = (r, st')"
      by (simp add: get_reference_audio_path_def)
    from no_reference_effect [OF this] Some False show ?thesis by simp
  qed
qed

theorem get_reference_audio_path_effect_witness:
  "get_reference_audio_path ''Morgan Freeman'' sample_disk
     = (Some ''reference_audio/morgan_freeman.wav'', sample_disk) \<and>
   get_reference_audio_path ''Emma Watson'' empty_disk
     = (None, empty_disk\<lparr>dirs := {''reference_audio''}\<rparr>) \<and>
   get_reference_audio_path ''Emma Watson'' readonly_disk = (None, readonly_disk)"
proof -
  have a: "get_reference_audio_path ''Morgan Freeman'' sample_disk
     = (Some ''reference_audio/morgan_freeman.wav'', sample_disk)"
    by (simp add: get_reference_audio_path_def reference_files_def path_exists_def
          sample_disk_def)
  have b: "get_reference_audio_path ''Emma Watson'' empty_disk
     = (None, empty_disk\<lparr>dirs := {''reference_audio''}\<rparr>)"
    by (simp add: get_reference_audio_path_def no_reference_def makedirs_def
          reference_files_def path_exists_def empty_disk_def)
  have c: "get_reference_audio_path ''Emma Watson'' readonly_disk = (None, readonly_disk)"
    by (simp add: get_reference_audio_path_def no_reference_def makedirs_def
          reference_files_def path_exists_def readonly_disk_def)
  from get_reference_audio_path_effect [OF a] get_reference_audio_path_effect [OF b]
    get_reference_audio_path_effect [OF c] a b c
  show ?thesis by simp
qed















end
